theory Spec2Isabelle
  imports Main "HOL-Library.Word"
begin

unbundle bit_operations_syntax

section \<open>Machine integers of the sources\<close>

type_synonym u8 = "8 word"
type_synonym u16 = "16 word"
type_synonym u32 = "32 word"

section \<open>The UDS service router (uds\_service\_router.h, uds\_service\_router.cpp)\<close>

text \<open>
  \<^verbatim>\<open>std::map<uint8_t, RoutableUdsService *> mServices\<close> holds pointers that the router
  does not own. A pointer is an address; the service objects live in a store beside the
  router, so that a change of a service object is told apart from a change of the map.
\<close>

type_synonym addr = nat

text \<open>
  The response of a request. The source of \<^verbatim>\<open>OperationOutput\<close> is not at hand;
  \<^verbatim>\<open>Route\<close> default-constructs one and writes its \<^verbatim>\<open>responseData\<close>, the only
  member it touches.
\<close>

record OperationOutput =
  responseData :: "u8 list"

text \<open>
  \<^verbatim>\<open>std::future<T>\<close>: either its shared state already holds a value (the promise's
  \<^verbatim>\<open>set_value\<close> has run), or the value is still to come; the number names the
  shared state that the producer will fulfil.
\<close>

datatype 'a future = Ready 'a | NotReady nat

text \<open>
  The interface \<^verbatim>\<open>RoutableUdsService\<close> (routable\_uds\_service.h is not at hand) is a
  parameter of the model: what the two virtual calls made by \<^verbatim>\<open>Route\<close> do on a
  service object of state \<open>'s\<close>. \<^verbatim>\<open>HandleMessage\<close> receives the request bytes, the
  metainfo (a non-const reference, so it is handed back) and the moved cancellation
  handler; it returns the future and may update the object it is called on.
\<close>

record ('s, 'm, 'c) RoutableUdsService =
  IsOffered :: "'s \<Rightarrow> bool"
  HandleMessage :: "'s \<Rightarrow> u8 list \<Rightarrow> 'm \<Rightarrow> 'c \<Rightarrow> OperationOutput future \<times> 's \<times> 'm"

record UdsServiceRouter =
  mServices :: "u8 \<rightharpoonup> addr"
  mSpecifier :: string

definition cNegativeResponseSid :: u8 where
  "cNegativeResponseSid = 0x7f"

definition cServiceNotSupportedNrc :: u8 where
  "cServiceNotSupportedNrc = 0x11"

text \<open>
  What a call of \<^verbatim>\<open>Route\<close> leaves behind: the returned future, the router, the
  store of service objects and the caller's metainfo.
\<close>

record ('s, 'm) Routed =
  result :: "OperationOutput future"
  router_after :: UdsServiceRouter
  services_after :: "addr \<Rightarrow> 's"
  metaInfo_after :: 'm

definition Route ::
  "('s, 'm, 'c) RoutableUdsService \<Rightarrow> UdsServiceRouter \<Rightarrow> (addr \<Rightarrow> 's) \<Rightarrow>
     u8 \<Rightarrow> u8 list \<Rightarrow> 'm \<Rightarrow> 'c \<Rightarrow> ('s, 'm) Routed" where
  "Route iface router services sid requestData metaInfo cancellationHandler =
     (case mServices router sid of
        Some p \<Rightarrow>
          (if IsOffered iface (services p) then
             (case HandleMessage iface (services p) requestData metaInfo cancellationHandler of
                (fut, s', metaInfo') \<Rightarrow>
                  \<lparr>result = fut, router_after = router,
                   services_after = services(p := s'), metaInfo_after = metaInfo'\<rparr>)
           else
             \<lparr>result = Ready \<lparr>responseData = [cNegativeResponseSid, sid, cServiceNotSupportedNrc]\<rparr>,
              router_after = router, services_after = services, metaInfo_after = metaInfo\<rparr>)
      | None \<Rightarrow>
          \<lparr>result = Ready \<lparr>responseData = [cNegativeResponseSid, sid, cServiceNotSupportedNrc]\<rparr>,
           router_after = router, services_after = services, metaInfo_after = metaInfo\<rparr>)"

text \<open>
  A small concrete setting to run the router on: a service object is a pair of its
  offered flag and the number of requests it has handled; handling a request answers
  at once with the request bytes reversed and counts the request.
\<close>

definition echoService :: "(bool \<times> nat, nat, unit) RoutableUdsService" where
  "echoService =
     \<lparr>IsOffered = fst,
      HandleMessage = (\<lambda>s req meta c.
        (Ready \<lparr>responseData = rev req\<rparr>, (fst s, Suc (snd s)), Suc meta))\<rparr>"

definition demoRouter :: UdsServiceRouter where
  "demoRouter = \<lparr>mServices = [0x10 \<mapsto> 0, 0x22 \<mapsto> 1], mSpecifier = ''router''\<rparr>"

definition demoServices :: "addr \<Rightarrow> bool \<times> nat" where
  "demoServices = (\<lambda>p. if p = 0 then (True, 0) else (False, 0))"

section \<open>The SOME/IP message header (someip\_message.h)\<close>

datatype SomeIpMessageType =
  Request | RequestNoReturn | Notification | Response | Error
  | TpRequest | TpRequestNoReturn | TpNotification | TpResponse | TpError

datatype SomeIpReturnCode =
  eOK | eNotOk | eUnknownService | eUnknownMethod | eNotReady | eNotReachable | eTimeout
  | eWrongProtocolVersion | eWrongInterfaceVersion | eMalformedMessage | eWrongMessageType
  | eE2eRepeated | eE2eWrongSequnece | eE2e | eE2eNotAvailable | eE2eNoNewData

record SomeIpMessage =
  mMessageId :: u32
  mClientId :: u16
  mSessionId :: u16
  mProtocolVersion :: u8
  mInterfaceVersion :: u8
  mMessageType :: SomeIpMessageType
  mReturnCode :: SomeIpReturnCode

text \<open>
  Modelled from the spec: the bodies of the member functions of \<^verbatim>\<open>SomeIpMessage\<close>.
  The header declares them; someip\_message.cpp, which defines them, is missing from the
  sources. Section 4.1 of the specification: the accessors are pure;
  \<^verbatim>\<open>incrementSessionId()\<close> "advances the session counter by one; on overflow past
  the maximum 16-bit value, wraps to 1 (never 0); returns whether a wrap occurred". The
  header agrees: "True if the session ID is wrappered; otherwise false", "In the case of
  wrapping, session ID will start from 1".
\<close>

definition SessionId :: "SomeIpMessage \<Rightarrow> u16" where
  "SessionId msg = mSessionId msg"

definition IncrementSessionId :: "SomeIpMessage \<Rightarrow> bool \<times> SomeIpMessage" where
  "IncrementSessionId msg =
     (if mSessionId msg = 0xFFFF then (True, msg\<lparr>mSessionId := 1\<rparr>)
      else (False, msg\<lparr>mSessionId := mSessionId msg + 1\<rparr>))"

text \<open>
  Modelled from the spec: the two static overloads of \<^verbatim>\<open>Inject\<close> (declared in the
  header, defined in the missing someip\_message.cpp). Section 4.1: they "append a value
  to a growable byte sequence in big-endian (network) byte order". The bytes are taken
  from the value by shifts, so the host's byte order plays no part.
\<close>

definition Inject_u16 :: "u8 list \<Rightarrow> u16 \<Rightarrow> u8 list" where
  "Inject_u16 vector v = vector @ [ucast (drop_bit 8 v), ucast v]"

definition Inject_u32 :: "u8 list \<Rightarrow> u32 \<Rightarrow> u8 list" where
  "Inject_u32 vector v =
     vector @ [ucast (drop_bit 24 v), ucast (drop_bit 16 v), ucast (drop_bit 8 v), ucast v]"

definition demoMessage :: "u16 \<Rightarrow> SomeIpMessage" where
  "demoMessage sessionId =
     \<lparr>mMessageId = 0x00010002, mClientId = 3, mSessionId = sessionId, mProtocolVersion = 1,
      mInterfaceVersion = 1, mMessageType = Request, mReturnCode = eOK\<rparr>"

section \<open>Optional (optional.h)\<close>

text \<open>
  The class keeps a value and a flag; without a value the member \<^verbatim>\<open>mValue\<close> is still
  there (default-initialised, or what an earlier value left behind).
\<close>

record 'a Optional =
  mValue :: 'a
  mHasValue :: bool

text \<open>
  How an access ends when it yields no value: \<^verbatim>\<open>throw std::runtime_error(msg)\<close>, or
  control reaching the closing brace of a function that has to return a value, with no
  \<^verbatim>\<open>return\<close> statement on the way (undefined behaviour in C++: no value is returned).
\<close>

datatype failure = runtime_error string | flows_off_the_end

definition HasValue :: "'a Optional \<Rightarrow> bool" where
  "HasValue opt = mHasValue opt"

text \<open>The overloads for lvalues and for rvalues of \<^verbatim>\<open>operator*\<close> and of
  \<^verbatim>\<open>Value\<close> differ in copying or moving the value only.\<close>

definition operator_star :: "'a Optional \<Rightarrow> failure + 'a" where
  "operator_star opt =
     (if mHasValue opt then Inr (mValue opt)
      else Inl (runtime_error ''Optional contains no value.''))"

text \<open>\<^verbatim>\<open>operator->\<close>: the branch for a present value is the expression statement
  \<^verbatim>\<open>&mValue;\<close>, whose result is dropped; the function body ends after it.\<close>

definition operator_arrow :: "'a Optional \<Rightarrow> failure + 'a" where
  "operator_arrow opt =
     (if mHasValue opt then Inl flows_off_the_end
      else Inl (runtime_error ''Optional contains no value.''))"

definition Value :: "'a Optional \<Rightarrow> failure + 'a" where
  "Value opt =
     (if mHasValue opt then Inr (mValue opt)
      else Inl (runtime_error ''Optional contains no value.''))"

definition ValueOr :: "'a Optional \<Rightarrow> 'a \<Rightarrow> 'a" where
  "ValueOr opt defaultValue = (if mHasValue opt then mValue opt else defaultValue)"

section \<open>The service discovery client's ServiceReady state (service\_ready\_state.cpp)\<close>

text \<open>
  Modelled from the spec: the enumeration \<^verbatim>\<open>helper::SdClientState\<close>, whose header is
  missing from the sources. Section 4.2 lists the states of the availability machine;
  they are the four enumerators that service\_ready\_state.cpp names.
\<close>

datatype SdClientState = Stopped | InitialWaitPhase | ServiceSeen | ServiceReady

text \<open>
  What \<^verbatim>\<open>std::bind(&ServiceReadyState::onTimerExpired, this)\<close> builds: a call of
  \<^verbatim>\<open>onTimerExpired\<close> on the ServiceReady state object of the machine.
\<close>

datatype ExpirationCallback = ServiceReadyState_onTimerExpired

text \<open>
  Modelled from the spec: the lease timer \<^verbatim>\<open>helper::TtlTimer\<close>, of which the sources
  hold the calls only. Section 2: a "single-shot, resettable, cancellable countdown with
  an expiration callback". Section 6: "reset(ttl) restarts the countdown at a new
  duration; cancel() stops it without firing; setExpirationCallback(fn) /
  clearExpirationCallback() register/unregister the one-shot handler invoked on natural
  expiry (never invoked after cancel())". The timer runs while \<open>remaining\<close> holds a
  duration.
\<close>

record TtlTimer =
  remaining :: "u32 option"
  onExpired :: "ExpirationCallback option"

definition Reset :: "u32 \<Rightarrow> TtlTimer \<Rightarrow> TtlTimer" where
  "Reset ttl t = t\<lparr>remaining := Some ttl\<rparr>"

definition Cancel :: "TtlTimer \<Rightarrow> TtlTimer" where
  "Cancel t = t\<lparr>remaining := None\<rparr>"

definition SetExpirationCallback :: "ExpirationCallback \<Rightarrow> TtlTimer \<Rightarrow> TtlTimer" where
  "SetExpirationCallback callback t = t\<lparr>onExpired := Some callback\<rparr>"

definition ResetExpirationCallback :: "TtlTimer \<Rightarrow> TtlTimer" where
  "ResetExpirationCallback t = t\<lparr>onExpired := None\<rparr>"

text \<open>
  Natural expiry of the countdown: a running timer stops and hands out the registered
  handler, if there is one, to be invoked; a timer that is not running fires nothing.
\<close>

definition Expire :: "TtlTimer \<Rightarrow> ExpirationCallback option \<times> TtlTimer" where
  "Expire t =
     (case remaining t of
        None \<Rightarrow> (None, t)
      | Some ttl \<Rightarrow> (onExpired t, t\<lparr>remaining := None\<rparr>))"

text \<open>
  The machine as far as the ServiceReady state reads and writes it: the current state
  of the state machine the state is registered at, the two flags of the state object,
  the timer behind the pointer \<^verbatim>\<open>Timer\<close>, and how often the condition variable behind
  \<^verbatim>\<open>mConditionVariable\<close> has been notified.
\<close>

record SdClientFsm =
  mCurrentState :: SdClientState
  mActivated :: bool
  mClientRequested :: bool
  Timer :: TtlTimer
  mNotified :: nat

definition Deactivate :: "SdClientState \<Rightarrow> SdClientFsm \<Rightarrow> SdClientFsm" where
  "Deactivate nextState m =
     m\<lparr>Timer := ResetExpirationCallback (Timer m),
       mClientRequested := True,
       mActivated := False\<rparr>"

text \<open>
  Modelled from the spec: \<^verbatim>\<open>Transit\<close>, inherited from \<^verbatim>\<open>helper::MachineState\<close>, whose
  header is missing from the sources, as are the state machine and the other states.
  Section 4.2: a transition out of ServiceReady is the state's exit ("On exit from
  \<^verbatim>\<open>ServiceReady\<close> (deactivation), the expiration callback is unregistered before any
  flag reset"), after which the machine is in the next state. The effects that the
  transition table lists for the transitions out of ServiceReady are those of
  \<^verbatim>\<open>Deactivate\<close>, of \<^verbatim>\<open>ServiceStopped\<close> and of the timer itself; it lists none
  for entering InitialWaitPhase, ServiceSeen or Stopped as such.
\<close>

definition Transit :: "SdClientState \<Rightarrow> SdClientFsm \<Rightarrow> SdClientFsm" where
  "Transit nextState m = (Deactivate nextState m)\<lparr>mCurrentState := nextState\<rparr>"

definition onTimerExpired :: "SdClientFsm \<Rightarrow> SdClientFsm" where
  "onTimerExpired m = Transit InitialWaitPhase m"

definition Activate :: "SdClientState \<Rightarrow> SdClientFsm \<Rightarrow> SdClientFsm" where
  "Activate previousState m =
     (let m1 = m\<lparr>mActivated := True\<rparr>;
          m2 = (if \<not> mClientRequested m1 then Transit ServiceSeen m1 else m1);
          m3 = m2\<lparr>mNotified := Suc (mNotified m2)\<rparr>
      in m3\<lparr>Timer := SetExpirationCallback ServiceReadyState_onTimerExpired (Timer m3)\<rparr>)"

definition ServiceNotRequested :: "SdClientFsm \<Rightarrow> SdClientFsm" where
  "ServiceNotRequested m =
     (if mActivated m then Transit ServiceSeen m
      else m\<lparr>mClientRequested := False\<rparr>)"

definition ServiceOffered :: "u32 \<Rightarrow> SdClientFsm \<Rightarrow> SdClientFsm" where
  "ServiceOffered ttl m = m\<lparr>Timer := Reset ttl (Timer m)\<rparr>"

definition ServiceStopped :: "SdClientFsm \<Rightarrow> SdClientFsm" where
  "ServiceStopped m = Transit Stopped (m\<lparr>Timer := Cancel (Timer m)\<rparr>)"

text \<open>The destructor \<^verbatim>\<open>~ServiceReadyState\<close>.\<close>

definition ServiceReadyState_destructor :: "SdClientFsm \<Rightarrow> SdClientFsm" where
  "ServiceReadyState_destructor m = m\<lparr>Timer := ResetExpirationCallback (Timer m)\<rparr>"

text \<open>
  The lease timer runs out while the machine lives: the timer stops, and the handler it
  holds, if any, is invoked.
\<close>

definition TimerExpired :: "SdClientFsm \<Rightarrow> SdClientFsm" where
  "TimerExpired m =
     (case Expire (Timer m) of
        (None, t) \<Rightarrow> m\<lparr>Timer := t\<rparr>
      | (Some ServiceReadyState_onTimerExpired, t) \<Rightarrow> onTimerExpired (m\<lparr>Timer := t\<rparr>))"

text \<open>
  After the state object is gone only the timer is left, and what can still happen to
  it is a restart, a cancellation or a natural expiry. \<open>timer_run\<close> plays a sequence of
  these and collects the handlers that the expiries invoke.
\<close>

datatype TimerStep = Restarted u32 | Cancelled | RunsOut

fun timer_run :: "TimerStep list \<Rightarrow> TtlTimer \<Rightarrow> ExpirationCallback list \<times> TtlTimer" where
  "timer_run [] t = ([], t)"
| "timer_run (Restarted ttl # steps) t = timer_run steps (Reset ttl t)"
| "timer_run (Cancelled # steps) t = timer_run steps (Cancel t)"
| "timer_run (RunsOut # steps) t =
     (case Expire t of
        (invoked, t') \<Rightarrow>
          (case timer_run steps t' of
             (later, t'') \<Rightarrow>
               ((case invoked of None \<Rightarrow> later | Some callback \<Rightarrow> callback # later), t'')))"

text \<open>
  Modelled from the spec: the handlers of the withdrawal of the service in the states
  ServiceSeen and InitialWaitPhase, whose sources are missing. Transition table of section
  4.2: "ServiceReady / ServiceSeen / InitialWaitPhase | service explicitly withdrawn |
  Stopped | cancel timer; terminal until restarted". In ServiceReady the handler is
  \<^verbatim>\<open>ServiceReadyState::ServiceStopped\<close> of the sources; Stopped, being terminal, ignores
  the event.
\<close>

definition ServiceStopped_elsewhere :: "SdClientFsm \<Rightarrow> SdClientFsm" where
  "ServiceStopped_elsewhere m = m\<lparr>Timer := Cancel (Timer m), mCurrentState := Stopped\<rparr>"

definition ServiceWithdrawn :: "SdClientFsm \<Rightarrow> SdClientFsm" where
  "ServiceWithdrawn m =
     (case mCurrentState m of
        ServiceReady \<Rightarrow> ServiceStopped m
      | ServiceSeen \<Rightarrow> ServiceStopped_elsewhere m
      | InitialWaitPhase \<Rightarrow> ServiceStopped_elsewhere m
      | Stopped \<Rightarrow> m)"

text \<open>
  A machine to run the state on: the flags as the constructor of \<^verbatim>\<open>ServiceReadyState\<close>
  sets them (\<^verbatim>\<open>mActivated{false}\<close>, \<^verbatim>\<open>mClientRequested{true}\<close>), an idle timer with no
  handler, nobody notified yet, and the machine waiting in InitialWaitPhase.
\<close>

definition constructed :: SdClientFsm where
  "constructed =
     \<lparr>mCurrentState = InitialWaitPhase, mActivated = False, mClientRequested = True,
      Timer = \<lparr>remaining = None, onExpired = None\<rparr>, mNotified = 0\<rparr>"

text \<open>
  Modelled from the spec: the step of the state machine (missing from the sources) that
  takes the machine into ServiceReady on an offer. Section 4.2: "On entry to
  \<^verbatim>\<open>ServiceReady\<close>, the machine marks itself activated, registers its own expiration
  handler on the lease timer [...] and signals a wake condition", which is what
  \<^verbatim>\<open>ServiceReadyState::Activate\<close> of the sources does. The step makes ServiceReady the
  current state and calls that \<^verbatim>\<open>Activate\<close> with the state the machine comes from.
\<close>

definition entering :: "SdClientFsm \<Rightarrow> SdClientFsm" where
  "entering m = Activate (mCurrentState m) (m\<lparr>mCurrentState := ServiceReady\<rparr>)"

section \<open>Properties of the router\<close>

text \<open>
  C1: for a SID that is not in the router's map, and for a SID whose registered service
  is not offered, Route returns an already completed future whose response is exactly
  the three bytes 0x7F, the requested SID, 0x11.
\<close>

theorem Route_negative_response:
  assumes "mServices router sid = None \<or>
           (\<exists>p. mServices router sid = Some p \<and> \<not> IsOffered iface (services p))"
  shows "result (Route iface router services sid requestData metaInfo cancellationHandler) =
           Ready \<lparr>responseData = [0x7F, sid, 0x11]\<rparr>"
  using assms
  by (auto simp: Route_def cNegativeResponseSid_def cServiceNotSupportedNrc_def)

theorem Route_negative_response_witness:
  "result (Route echoService demoRouter demoServices 0x3E [1, 2] 0 ()) =
     Ready \<lparr>responseData = [0x7F, 0x3E, 0x11]\<rparr> \<and>
   result (Route echoService demoRouter demoServices 0x22 [1, 2] 0 ()) =
     Ready \<lparr>responseData = [0x7F, 0x22, 0x11]\<rparr>"
proof -
  have unregistered: "mServices demoRouter 0x3E = None"
    by (simp add: demoRouter_def)
  have not_offered: "\<exists>p. mServices demoRouter 0x22 = Some p \<and>
      \<not> IsOffered echoService (demoServices p)"
    by (simp add: demoRouter_def demoServices_def echoService_def)
  show ?thesis
    using Route_negative_response [of demoRouter "0x3E" echoService demoServices "[1, 2]" 0 "()"]
      Route_negative_response [of demoRouter "0x22" echoService demoServices "[1, 2]" 0 "()"]
      unregistered not_offered
    by blast
qed

text \<open>
  C5: for a SID whose registered service is offered, Route hands the request bytes, the
  metainfo and the cancellation handler to that service's HandleMessage as they are and
  returns the future HandleMessage produced, as it is; the only other effects are the
  ones HandleMessage itself has on the service object and on the metainfo.
\<close>

theorem Route_forwards_to_offered_service:
  assumes "mServices router sid = Some p"
    and "IsOffered iface (services p)"
  shows "Route iface router services sid requestData metaInfo cancellationHandler =
           (let handled = HandleMessage iface (services p) requestData metaInfo cancellationHandler
            in \<lparr>result = fst handled, router_after = router,
                services_after = services(p := fst (snd handled)),
                metaInfo_after = snd (snd handled)\<rparr>)"
  using assms by (simp add: Route_def Let_def split: prod.splits)

theorem Route_forwards_to_offered_service_witness:
  "Route echoService demoRouter demoServices 0x10 [1, 2, 3] 7 () =
     \<lparr>result = Ready \<lparr>responseData = [3, 2, 1]\<rparr>, router_after = demoRouter,
      services_after = demoServices(0 := (True, 1)), metaInfo_after = 8\<rparr>"
proof -
  have registered: "mServices demoRouter 0x10 = Some 0"
    by (simp add: demoRouter_def)
  have offered: "IsOffered echoService (demoServices 0)"
    by (simp add: demoServices_def echoService_def)
  show ?thesis
    using Route_forwards_to_offered_service
      [of demoRouter "0x10" 0 echoService demoServices "[1, 2, 3]" 7 "()"]
      registered offered
    by (simp add: echoService_def demoServices_def)
qed

text \<open>
  C10: whatever the SID and whether or not its service is offered, a call of Route leaves
  the router's map from SIDs to services as it was: the same SIDs are registered, and
  each maps to the same service.
\<close>

theorem Route_keeps_registry:
  "mServices (router_after (Route iface router services sid requestData metaInfo cancellationHandler)) =
     mServices router"
  by (simp add: Route_def split: option.splits prod.splits)

section \<open>Properties of the message header\<close>

lemma unat_u16_max: "(w :: u16) = 0xFFFF \<longleftrightarrow> unat w = 65535"
  by (simp add: word_unat_eq_iff)

lemma unat_u16_succ: "unat (w :: u16) < 65535 \<Longrightarrow> unat (w + 1) = unat w + 1"
  using unat_add_lem [of w 1] by simp

lemma unat_u16_bound: "unat (w :: u16) < 65536"
  using unsigned_less [of w, where ?'a = nat] by simp

lemma unat_u32_bound: "unat (w :: u32) < 4294967296"
  using unsigned_less [of w, where ?'a = nat] by simp

lemma IncrementSessionId_no_wrap:
  "unat (mSessionId msg) < 65535 \<Longrightarrow>
     IncrementSessionId msg = (False, msg\<lparr>mSessionId := mSessionId msg + 1\<rparr>)"
  by (auto simp add: IncrementSessionId_def unat_u16_max)

lemma IncrementSessionId_wrap:
  "unat (mSessionId msg) = 65535 \<Longrightarrow>
     IncrementSessionId msg = (True, msg\<lparr>mSessionId := 1\<rparr>)"
  by (simp add: IncrementSessionId_def unat_u16_max)

lemma IncrementSessionId_nonzero: "SessionId (snd (IncrementSessionId msg)) \<noteq> 0"
proof (cases "unat (mSessionId msg) < 65535")
  case True
  then have "unat (SessionId (snd (IncrementSessionId msg))) = unat (mSessionId msg) + 1"
    by (simp add: IncrementSessionId_no_wrap SessionId_def unat_u16_succ)
  then show ?thesis by (auto simp add: word_unat_eq_iff)
next
  case False
  with unat_u16_bound [of "mSessionId msg"] have "unat (mSessionId msg) = 65535" by simp
  then show ?thesis by (simp add: IncrementSessionId_wrap SessionId_def)
qed

text \<open>
  C3: from a session identifier v with 1 \<le> v < 65535, IncrementSessionId goes to v + 1 and
  returns false; from 65535 it goes to 1 and returns true; after a call, whatever the
  identifier was, SessionId() is not 0.
\<close>

theorem IncrementSessionId_steps:
  "(1 \<le> unat (SessionId msg) \<and> unat (SessionId msg) < 65535 \<longrightarrow>
      fst (IncrementSessionId msg) = False \<and>
      unat (SessionId (snd (IncrementSessionId msg))) = unat (SessionId msg) + 1) \<and>
   (unat (SessionId msg) = 65535 \<longrightarrow>
      fst (IncrementSessionId msg) = True \<and>
      unat (SessionId (snd (IncrementSessionId msg))) = 1) \<and>
   unat (SessionId (snd (IncrementSessionId msg))) \<noteq> 0"
proof (intro conjI impI)
  assume "1 \<le> unat (SessionId msg) \<and> unat (SessionId msg) < 65535"
  then have small: "unat (mSessionId msg) < 65535" by (simp add: SessionId_def)
  show "fst (IncrementSessionId msg) = False"
    by (simp add: IncrementSessionId_no_wrap [OF small])
  show "unat (SessionId (snd (IncrementSessionId msg))) = unat (SessionId msg) + 1"
    by (simp add: IncrementSessionId_no_wrap [OF small] SessionId_def unat_u16_succ [OF small])
next
  assume "unat (SessionId msg) = 65535"
  then have top: "unat (mSessionId msg) = 65535" by (simp add: SessionId_def)
  show "fst (IncrementSessionId msg) = True"
    by (simp add: IncrementSessionId_wrap [OF top])
  show "unat (SessionId (snd (IncrementSessionId msg))) = 1"
    by (simp add: IncrementSessionId_wrap [OF top] SessionId_def)
next
  show "unat (SessionId (snd (IncrementSessionId msg))) \<noteq> 0"
    using IncrementSessionId_nonzero [of msg] by (simp add: unat_eq_0)
qed

theorem IncrementSessionId_steps_witness:
  "fst (IncrementSessionId (demoMessage 41)) = False \<and>
   unat (SessionId (snd (IncrementSessionId (demoMessage 41)))) = 42 \<and>
   fst (IncrementSessionId (demoMessage 65535)) = True \<and>
   unat (SessionId (snd (IncrementSessionId (demoMessage 65535)))) = 1"
proof -
  have below: "1 \<le> unat (SessionId (demoMessage 41)) \<and> unat (SessionId (demoMessage 41)) < 65535"
    by (simp add: SessionId_def demoMessage_def)
  have top: "unat (SessionId (demoMessage 65535)) = 65535"
    by (simp add: SessionId_def demoMessage_def)
  have "unat (SessionId (demoMessage 41)) + 1 = 42"
    by (simp add: SessionId_def demoMessage_def)
  then show ?thesis
    using IncrementSessionId_steps [of "demoMessage 41"]
      IncrementSessionId_steps [of "demoMessage 65535"] below top
    by simp
qed

lemma unat_ucast_u16: "unat (ucast (w :: u16) :: u8) = unat w mod 256"
  by (simp add: unsigned_ucast_eq take_bit_eq_mod)

lemma unat_ucast_u32: "unat (ucast (w :: u32) :: u8) = unat w mod 256"
  by (simp add: unsigned_ucast_eq take_bit_eq_mod)

lemma unat_drop_bit_word: "unat (drop_bit n w) = unat w div 2 ^ n"
  unfolding unat_drop_bit_eq by (rule drop_bit_eq_div)

text \<open>
  C6: Inject leaves the bytes already in the vector alone and appends the value's
  bytes, most significant first: for a 16-bit value the byte v div 256 and then the byte
  v mod 256, for a 32-bit value its four bytes from bits 31..24 down to bits 7..0; so
  0x1234 is appended as 0x12, 0x34. Nothing in it looks at the host's byte order.
\<close>

theorem Inject_big_endian:
  "take (length vector) (Inject_u16 vector v) = vector \<and>
   map unat (drop (length vector) (Inject_u16 vector v)) = [unat v div 256, unat v mod 256] \<and>
   take (length vector) (Inject_u32 vector w) = vector \<and>
   map unat (drop (length vector) (Inject_u32 vector w)) =
     [unat w div 2 ^ 24, unat w div 2 ^ 16 mod 256, unat w div 2 ^ 8 mod 256, unat w mod 256] \<and>
   Inject_u16 vector 0x1234 = vector @ [0x12, 0x34]"
proof (intro conjI)
  have "unat v div 256 < 256" using unat_u16_bound [of v] by simp
  then show "map unat (drop (length vector) (Inject_u16 vector v)) = [unat v div 256, unat v mod 256]"
    by (simp add: Inject_u16_def unat_ucast_u16 unat_drop_bit_word)
next
  have "unat w div 16777216 < 256" using unat_u32_bound [of w] by simp
  then show "map unat (drop (length vector) (Inject_u32 vector w)) =
     [unat w div 2 ^ 24, unat w div 2 ^ 16 mod 256, unat w div 2 ^ 8 mod 256, unat w mod 256]"
    by (simp add: Inject_u32_def unat_ucast_u32 unat_drop_bit_word)
qed (simp_all add: Inject_u16_def Inject_u32_def)

section \<open>Properties of Optional\<close>

lemma access_without_value:
  "\<not> mHasValue opt \<Longrightarrow>
     Value opt = Inl (runtime_error ''Optional contains no value.'') \<and>
     operator_star opt = Inl (runtime_error ''Optional contains no value.'') \<and>
     operator_arrow opt = Inl (runtime_error ''Optional contains no value.'')"
  by (simp add: operator_arrow_def Value_def operator_star_def)

lemma Value_with_value:
  "mHasValue opt \<Longrightarrow> Value opt = Inr (mValue opt) \<and> operator_star opt = Inr (mValue opt)"
  by (simp add: Value_def operator_star_def)

text \<open>
  C9, where the code departs from the claim: on an Optional that holds the value 5,
  Value() and operator* return 5, but operator-> returns nothing: its branch for a present
  value has no return statement, and control runs off the end of the function.
\<close>

theorem operator_arrow_drops_value:
  "operator_arrow \<lparr>mValue = (5 :: int), mHasValue = True\<rparr> = Inl flows_off_the_end \<and>
   Value \<lparr>mValue = (5 :: int), mHasValue = True\<rparr> = Inr 5 \<and>
   operator_star \<lparr>mValue = (5 :: int), mHasValue = True\<rparr> = Inr 5"
  by (simp add: operator_arrow_def Value_def operator_star_def)

section \<open>Properties of the ServiceReady state\<close>

lemma Transit_state: "mCurrentState (Transit nextState m) = nextState"
  by (simp add: Transit_def)

lemma Transit_callback: "onExpired (Timer (Transit nextState m)) = None"
  by (simp add: Transit_def Deactivate_def ResetExpirationCallback_def)

lemma Transit_remaining: "remaining (Timer (Transit nextState m)) = remaining (Timer m)"
  by (simp add: Transit_def Deactivate_def ResetExpirationCallback_def)

lemma Activate_registers_callback:
  "onExpired (Timer (Activate previousState m)) = Some ServiceReadyState_onTimerExpired"
  by (simp add: Activate_def Let_def SetExpirationCallback_def)

lemma Activate_state:
  "mCurrentState (Activate previousState m) =
     (if mClientRequested m then mCurrentState m else ServiceSeen)"
  by (simp add: Activate_def Let_def Transit_state)

text \<open>The sibling path into ServiceSeen, taken once the state is activated, leaves no
  handler on the timer.\<close>

lemma ServiceNotRequested_activated:
  "mActivated m \<Longrightarrow>
     mCurrentState (ServiceNotRequested m) = ServiceSeen \<and>
     onExpired (Timer (ServiceNotRequested m)) = None"
  by (simp add: ServiceNotRequested_def Transit_state Transit_callback)

text \<open>
  C2, where the code departs from the claim: the client withdraws its request before the
  state is activated (clientRequested becomes false), then an offer takes the machine from
  InitialWaitPhase into ServiceReady. Activate moves on to ServiceSeen, and then still
  registers the expiration callback of the ServiceReady state on the lease timer: the
  machine ends in ServiceSeen with that callback registered, not without one.
\<close>

theorem Activate_unrequested_keeps_callback:
  "mClientRequested (ServiceNotRequested constructed) = False \<and>
   mCurrentState (entering (ServiceNotRequested constructed)) = ServiceSeen \<and>
   onExpired (Timer (entering (ServiceNotRequested constructed))) =
     Some ServiceReadyState_onTimerExpired"
  by (simp add: entering_def Activate_registers_callback Activate_state
      ServiceNotRequested_def constructed_def)

text \<open>
  C4: in ServiceReady, with the lease timer running and the state's expiration callback
  registered, the timer running out takes the machine to InitialWaitPhase, and afterwards
  no expiration callback is registered on the timer.
\<close>

theorem TimerExpired_in_ServiceReady:
  assumes "mCurrentState m = ServiceReady"
    and "remaining (Timer m) = Some ttl"
    and "onExpired (Timer m) = Some ServiceReadyState_onTimerExpired"
  shows "mCurrentState (TimerExpired m) = InitialWaitPhase \<and>
         onExpired (Timer (TimerExpired m)) = None"
  using assms
  by (simp add: TimerExpired_def Expire_def onTimerExpired_def
      Transit_state Transit_callback)

theorem TimerExpired_in_ServiceReady_witness:
  "mCurrentState (ServiceOffered 5 (entering constructed)) = ServiceReady \<and>
   mCurrentState (TimerExpired (ServiceOffered 5 (entering constructed))) = InitialWaitPhase \<and>
   onExpired (Timer (TimerExpired (ServiceOffered 5 (entering constructed)))) = None"
proof -
  let ?m = "ServiceOffered 5 (entering constructed)"
  have ready: "mCurrentState ?m = ServiceReady"
    by (simp add: ServiceOffered_def entering_def Activate_state constructed_def)
  have running: "remaining (Timer ?m) = Some 5"
    by (simp add: ServiceOffered_def Reset_def)
  have registered: "onExpired (Timer ?m) = Some ServiceReadyState_onTimerExpired"
    by (simp add: ServiceOffered_def Reset_def entering_def Activate_registers_callback)
  show ?thesis
    using TimerExpired_in_ServiceReady [OF ready running registered] ready by simp
qed

lemma timer_run_without_callback:
  "onExpired t = None \<Longrightarrow>
     fst (timer_run steps t) = [] \<and> onExpired (snd (timer_run steps t)) = None"
proof (induction steps arbitrary: t)
  case Nil
  then show ?case by simp
next
  case (Cons step steps)
  show ?case
  proof (cases step)
    case (Restarted ttl)
    with Cons show ?thesis by (simp add: Reset_def)
  next
    case Cancelled
    with Cons show ?thesis by (simp add: Cancel_def)
  next
    case RunsOut
    have "fst (Expire t) = None" and "onExpired (snd (Expire t)) = None"
      using Cons.prems by (simp_all add: Expire_def split: option.splits)
    with Cons.IH [of "snd (Expire t)"] RunsOut show ?thesis
      by (simp add: split_beta)
  qed
qed

text \<open>
  C7: the destructor of the ServiceReady state takes the expiration callback off the lease
  timer, in whatever state the machine is (so in ServiceReady too): once it has run the
  timer holds no callback, an expiry invokes nothing, and this stays so through any further
  restarts, cancellations and expiries of the timer.
\<close>

theorem destructor_unregisters_callback:
  "onExpired (Timer (ServiceReadyState_destructor m)) = None \<and>
   fst (Expire (Timer (ServiceReadyState_destructor m))) = None \<and>
   fst (timer_run steps (Timer (ServiceReadyState_destructor m))) = [] \<and>
   onExpired (snd (timer_run steps (Timer (ServiceReadyState_destructor m)))) = None"
proof -
  have gone: "onExpired (Timer (ServiceReadyState_destructor m)) = None"
    by (simp add: ServiceReadyState_destructor_def ResetExpirationCallback_def)
  then have "fst (Expire (Timer (ServiceReadyState_destructor m))) = None"
    by (simp add: Expire_def split: option.splits)
  with gone timer_run_without_callback [OF gone, of steps] show ?thesis by simp
qed

text \<open>
  C8: in each of the states ServiceReady, ServiceSeen and InitialWaitPhase, that is in every
  state but Stopped, the withdrawal of the service cancels the lease timer and takes the
  machine to Stopped.
\<close>

theorem ServiceWithdrawn_stops:
  assumes "mCurrentState m \<noteq> Stopped"
  shows "mCurrentState (ServiceWithdrawn m) = Stopped \<and>
         remaining (Timer (ServiceWithdrawn m)) = None"
  using assms
  by (cases "mCurrentState m")
    (simp_all add: ServiceWithdrawn_def ServiceStopped_def ServiceStopped_elsewhere_def
      Transit_state Transit_remaining Cancel_def)

theorem ServiceWithdrawn_stops_witness:
  "mCurrentState (ServiceWithdrawn (ServiceOffered 5 (entering constructed))) = Stopped \<and>
   remaining (Timer (ServiceWithdrawn (ServiceOffered 5 (entering constructed)))) = None \<and>
   mCurrentState (ServiceWithdrawn (ServiceNotRequested (ServiceOffered 5 (entering constructed)))) =
     Stopped \<and>
   remaining (Timer (ServiceWithdrawn (ServiceNotRequested (ServiceOffered 5 (entering constructed))))) =
     None \<and>
   mCurrentState (ServiceWithdrawn constructed) = Stopped"
proof -
  let ?ready = "ServiceOffered 5 (entering constructed)"
  have ready: "mCurrentState ?ready = ServiceReady"
    by (simp add: ServiceOffered_def entering_def Activate_state constructed_def)
  have "mActivated ?ready"
    by (simp add: ServiceOffered_def entering_def Activate_def Let_def constructed_def)
  then have seen: "mCurrentState (ServiceNotRequested ?ready) = ServiceSeen"
    by (simp add: ServiceNotRequested_activated)
  have waiting: "mCurrentState constructed = InitialWaitPhase"
    by (simp add: constructed_def)
  show ?thesis
    using ServiceWithdrawn_stops [of ?ready]
      ServiceWithdrawn_stops [of "ServiceNotRequested ?ready"]
      ServiceWithdrawn_stops [of constructed]
      ready seen waiting
    by simp
qed

end
